theory Spec2Isabelle
  imports Main "HOL-Library.Char_ord" "HOL-Library.List_Lexorder"
    "HOL-Library.Product_Lexorder" "HOL-Library.Multiset"
begin

section \<open>helm-resources-checker: values, errors and the outside world\<close>

text \<open>
  The program is a single Python file. Its own code is embedded function by function;
  what it calls in the Python libraries (base64, gzip, json, PyYAML, the Kubernetes
  client) is a parameter of the model, gathered in the records \<open>lib\<close> and
  \<open>cluster\<close>. A Python \<open>str\<close> and a Python \<open>bytes\<close> are both a \<open>string\<close>
  (a list of 8-bit characters). Names and label values of Kubernetes objects are ASCII,
  and a label value has at most 63 characters.
\<close>

type_synonym bytes = string

text \<open>Every exception class that one of the embedded functions can meet.\<close>

datatype error =
    ValueError | BinasciiError
  | OSError | EOFError | BadGzipFile | ZlibError
  | JSONDecodeError | UnicodeDecodeError | RuntimeError
  | AttributeError | YAMLError | TypeError
  | NotFoundError | DynamicApiError | ResourceNotFoundError

text \<open>
  The Python values that \<open>json.loads\<close> and \<open>yaml.safe_load_all\<close> build: None, bool,
  int, str, list and dict (a dict as the list of its items, keys distinct).
\<close>

datatype pyval =
    PNone
  | PBool bool
  | PInt int
  | PStr string
  | PList "pyval list"
  | PDict "(pyval \<times> pyval) list"

text \<open>Truth value of a Python object, as \<open>if x\<close>, \<open>x and y\<close> and \<open>x or y\<close> test it.\<close>

fun truthy :: "pyval \<Rightarrow> bool" where
  "truthy PNone = False"
| "truthy (PBool b) = b"
| "truthy (PInt i) = (i \<noteq> 0)"
| "truthy (PStr s) = (s \<noteq> [])"
| "truthy (PList xs) = (xs \<noteq> [])"
| "truthy (PDict d) = (d \<noteq> [])"

text \<open>\<open>d.get(key)\<close> and \<open>d.get(key, default)\<close> on a dict, for a \<open>str\<close> key.\<close>

definition dict_get :: "(pyval \<times> pyval) list \<Rightarrow> string \<Rightarrow> pyval \<Rightarrow> pyval" where
  "dict_get d k dflt = (case map_of d (PStr k) of None \<Rightarrow> dflt | Some v \<Rightarrow> v)"

text \<open>
  A generator: the items it yields, then the exception that ends it, if one does.
\<close>

datatype 'a gen = Gen (yielded: "'a list") (raised: "error option")

fun gen_cons :: "'a \<Rightarrow> 'a gen \<Rightarrow> 'a gen" where
  "gen_cons x (Gen xs e) = Gen (x # xs) e"

section \<open>Release record resolver\<close>

text \<open>A Secret as the resolver reads it: \<open>metadata.name\<close>, \<open>metadata.labels\<close>, \<open>data\<close>.\<close>

record secret =
  sec_name :: string
  sec_labels :: "string \<rightharpoonup> string"
  sec_data :: "string \<rightharpoonup> string"

text \<open>
  The cluster, as the program reaches it through the dynamic client:
  \<^item> \<open>list_secrets ns selector\<close> is \<open>v1_secrets.get(namespace=ns,
    label_selector=selector).items\<close>;
  \<^item> \<open>resources_get api_version kind\<close> is \<open>dyn_client.resources.get(...)\<close>, giving
    whether the resource is namespaced;
  \<^item> \<open>resource_get api_version kind name namespace\<close> is \<open>res.get(name=...,
    namespace=...)\<close>, or \<open>res.get(name=...)\<close> when the namespace is \<open>None\<close>.
\<close>

record cluster =
  list_secrets :: "string \<Rightarrow> string \<Rightarrow> error + secret list"
  resources_get :: "pyval \<Rightarrow> pyval \<Rightarrow> error + bool"
  resource_get :: "pyval \<Rightarrow> pyval \<Rightarrow> pyval \<Rightarrow> pyval option \<Rightarrow> error + unit"

definition OWNER_LABEL :: string where
  "OWNER_LABEL = ''owner=helm''"

subsection \<open>Strings: \<open>isdigit\<close>, \<open>int\<close>, \<open>lstrip\<close>, \<open>PurePath.suffix\<close>\<close>

definition digit_char :: "char \<Rightarrow> bool" where
  "digit_char c = (CHR ''0'' \<le> c \<and> c \<le> CHR ''9'')"

definition digit_val :: "char \<Rightarrow> int" where
  "digit_val c = int (of_char c) - 48"

text \<open>\<open>s.isdigit()\<close>: at least one character, all of them digits.\<close>

definition isdigit :: "string \<Rightarrow> bool" where
  "isdigit s = (s \<noteq> [] \<and> list_all digit_char s)"

text \<open>The value of a string of decimal digits.\<close>

definition decimal :: "string \<Rightarrow> int" where
  "decimal s = foldl (\<lambda>n c. 10 * n + digit_val c) 0 s"

text \<open>
  \<open>int(s)\<close> on a \<open>str\<close>: white space around is dropped, one sign is allowed, then
  decimal digits, with single underscores between digits. \<open>None\<close> is the ValueError.
\<close>

definition py_space :: "char \<Rightarrow> bool" where
  "py_space c = (c \<in> set [CHR 0x09, CHR 0x0A, CHR 0x0B, CHR 0x0C, CHR 0x0D, CHR 0x20])"

definition py_strip :: "string \<Rightarrow> string" where
  "py_strip s = rev (dropWhile py_space (rev (dropWhile py_space s)))"

fun int_digits :: "int \<Rightarrow> string \<Rightarrow> int option" where
  "int_digits acc [] = Some acc"
| "int_digits acc [c] = (if digit_char c then Some (10 * acc + digit_val c) else None)"
| "int_digits acc (c # d # cs) =
     (if digit_char c then int_digits (10 * acc + digit_val c) (d # cs)
      else if c = CHR ''_'' \<and> digit_char d then int_digits acc (d # cs)
      else None)"

definition int_unsigned :: "string \<Rightarrow> int option" where
  "int_unsigned s =
     (case s of [] \<Rightarrow> None
      | c # cs \<Rightarrow> if digit_char c then int_digits 0 s else None)"

definition py_int :: "string \<Rightarrow> int option" where
  "py_int s =
     (case py_strip s of [] \<Rightarrow> None
      | c # cs \<Rightarrow>
          if c = CHR ''+'' then int_unsigned cs
          else if c = CHR ''-'' then map_option uminus (int_unsigned cs)
          else int_unsigned (c # cs))"

text \<open>\<open>s.lstrip(chars)\<close>: drop leading characters that occur in \<open>chars\<close>.\<close>

definition lstrip :: "string \<Rightarrow> string \<Rightarrow> string" where
  "lstrip chars s = dropWhile (\<lambda>c. c \<in> set chars) s"

text \<open>
  \<open>PurePath(p).name\<close> on a POSIX path: the last component, where components are
  separated by \<open>/\<close> and empty and \<open>.\<close> components do not count; the empty string if
  there is none.
\<close>

fun split_slash :: "string \<Rightarrow> string \<Rightarrow> string list" where
  "split_slash cur [] = [rev cur]"
| "split_slash cur (c # cs) =
     (if c = CHR ''/'' then rev cur # split_slash [] cs else split_slash (c # cur) cs)"

definition path_name :: "string \<Rightarrow> string" where
  "path_name p =
     (case filter (\<lambda>part. part \<noteq> [] \<and> part \<noteq> ''.'') (split_slash [] p) of
        [] \<Rightarrow> []
      | parts \<Rightarrow> last parts)"

text \<open>\<open>s.rfind(c)\<close>: the last index of \<open>c\<close> in \<open>s\<close>; \<open>None\<close> is Python's -1.\<close>

fun rfind :: "char \<Rightarrow> string \<Rightarrow> nat option" where
  "rfind c [] = None"
| "rfind c (x # xs) =
     (case rfind c xs of
        Some i \<Rightarrow> Some (Suc i)
      | None \<Rightarrow> if x = c then Some 0 else None)"

text \<open>
  \<open>PurePath(p).suffix\<close>: with \<open>i = name.rfind('.')\<close>, the slice \<open>name[i:]\<close> when
  \<open>0 < i < len(name) - 1\<close>, else the empty string. The slice starts at the dot.
\<close>

definition suffix :: "string \<Rightarrow> string" where
  "suffix p =
     (let name = path_name p in
      case rfind CHR ''.'' name of
        None \<Rightarrow> []
      | Some i \<Rightarrow> if 0 < i \<and> i + 1 < length name then drop i name else [])"

subsection \<open>\<open>find_release_secret\<close>\<close>

text \<open>
  The nested function \<open>secret_version\<close>. In the first branch \<open>int(lbl)\<close> cannot raise,
  \<open>lbl.isdigit()\<close> holding (lemma \<open>py_int_isdigit\<close> below), and is the decimal value.
  In the second, the ValueError of \<open>int\<close> is caught and gives 0.
\<close>

definition secret_version :: "secret \<Rightarrow> int" where
  "secret_version sec =
     (let lbl = (case sec_labels sec ''version'' of None \<Rightarrow> [] | Some v \<Rightarrow> v) in
      if isdigit lbl then decimal lbl
      else (case py_int (lstrip ''v'' (suffix (sec_name sec))) of
              Some n \<Rightarrow> n
            | None \<Rightarrow> 0))"

text \<open>
  \<open>max(xs, key=f)\<close>: the first item whose key no later item exceeds; a ValueError on
  an empty list.
\<close>

fun max_loop :: "('a \<Rightarrow> int) \<Rightarrow> 'a \<Rightarrow> 'a list \<Rightarrow> 'a" where
  "max_loop key best [] = best"
| "max_loop key best (x # xs) = max_loop key (if key x > key best then x else best) xs"

fun py_max :: "('a \<Rightarrow> int) \<Rightarrow> 'a list \<Rightarrow> error + 'a" where
  "py_max key [] = Inl ValueError"
| "py_max key (x # xs) = Inr (max_loop key x xs)"

text \<open>
  \<open>find_release_secret\<close>. The result \<open>Inr None\<close> is the \<open>None\<close> that the caller
  reports as "not found". Of the exceptions of the query only NotFoundError is caught.
\<close>

definition find_release_secret ::
  "cluster \<Rightarrow> string \<Rightarrow> string \<Rightarrow> int option \<Rightarrow> error + secret option" where
  "find_release_secret dyn_client release_name release_ns revision =
     (let label_sel = OWNER_LABEL @ '',name='' @ release_name in
      case list_secrets dyn_client release_ns label_sel of
        Inl e \<Rightarrow> if e = NotFoundError then Inr None else Inl e
      | Inr candidates \<Rightarrow>
          if candidates = [] then Inr None
          else (case revision of
                  None \<Rightarrow> map_sum id Some (py_max secret_version candidates)
                | Some r \<Rightarrow> Inr (find (\<lambda>sec. secret_version sec = r) candidates)))"

section \<open>Payload decoder\<close>

text \<open>
  The library calls of the decoder and of the extractor, as parameters:
  \<^item> \<open>b64decode\<close> is \<open>base64.b64decode\<close>, on a \<open>str\<close> or on \<open>bytes\<close>: the decoded
    bytes, or binascii.Error (a ValueError for a \<open>str\<close> that is not ASCII);
  \<^item> \<open>gzip_decompress\<close> is \<open>gzip.decompress\<close>: the data, or OSError, EOFError,
    BadGzipFile or zlib.error;
  \<^item> \<open>json_loads\<close> is \<open>json.loads\<close> on bytes: the value, or JSONDecodeError, or
    UnicodeDecodeError when the bytes are not text;
  \<^item> \<open>safe_load_all\<close> is \<open>yaml.safe_load_all\<close>: a generator of documents that a
    YAMLError may end;
  \<^item> \<open>sorted_mixed\<close> is \<open>sorted\<close> on tuples that are not all made of strings, where
    comparing two values of different types raises TypeError.
\<close>

type_synonym identity = "pyval \<times> pyval \<times> pyval \<times> pyval"

record lib =
  b64decode :: "bytes \<Rightarrow> error + bytes"
  gzip_decompress :: "bytes \<Rightarrow> error + bytes"
  json_loads :: "bytes \<Rightarrow> error + pyval"
  safe_load_all :: "string \<Rightarrow> pyval gen"
  sorted_mixed :: "identity list \<Rightarrow> error + identity list"

definition gzip_magic :: bytes where
  "gzip_magic = [CHR 0x1F, CHR 0x8B]"

definition startswith :: "'a list \<Rightarrow> 'a list \<Rightarrow> bool" where
  "startswith p s = (take (length p) s = p)"

text \<open>
  \<open>_try_decompress\<close>. The handler catches OSError, EOFError and BadGzipFile and does
  nothing, so that the data is returned as it came; any other exception of
  \<open>gzip.decompress\<close> leaves the function.
\<close>

definition try_decompress :: "lib \<Rightarrow> bytes \<Rightarrow> error + bytes" where
  "try_decompress L data =
     (if startswith gzip_magic data then
        (case gzip_decompress L data of
           Inr out \<Rightarrow> Inr out
         | Inl e \<Rightarrow> if e \<in> {OSError, EOFError, BadGzipFile} then Inr data else Inl e)
      else Inr data)"

text \<open>
  \<open>decode_release_payload\<close>. Outside the \<open>try\<close>, an exception of \<open>b64decode\<close> or of
  \<open>_try_decompress\<close> leaves the function as it is. The outer handler catches
  JSONDecodeError only; the inner one catches every exception of the second round and
  raises RuntimeError.
\<close>

definition decode_release_payload :: "lib \<Rightarrow> string \<Rightarrow> error + pyval" where
  "decode_release_payload L encoded =
     (case b64decode L encoded of
        Inl e \<Rightarrow> Inl e
      | Inr data \<Rightarrow>
     (case try_decompress L data of
        Inl e \<Rightarrow> Inl e
      | Inr raw \<Rightarrow>
     (case json_loads L raw of
        Inr release \<Rightarrow> Inr release
      | Inl e \<Rightarrow>
          if e \<noteq> JSONDecodeError then Inl e
          else
            (case b64decode L raw of
               Inl e2 \<Rightarrow> Inl RuntimeError
             | Inr data2 \<Rightarrow>
            (case try_decompress L data2 of
               Inl e2 \<Rightarrow> Inl RuntimeError
             | Inr raw2 \<Rightarrow>
            (case json_loads L raw2 of
               Inl e2 \<Rightarrow> Inl RuntimeError
             | Inr release \<Rightarrow> Inr release))))))"

section \<open>Manifest extractor\<close>

text \<open>
  The body of the loop of \<open>manifest_objects\<close>, over the documents that the loader yields
  and the exception that ends it. \<open>meta.get\<close> is evaluated before the test of the three
  fields; on a \<open>meta\<close> that is not a dict it raises AttributeError, which ends the
  generator.
\<close>

fun objects_loop :: "pyval list \<Rightarrow> error option \<Rightarrow> string \<Rightarrow> identity gen" where
  "objects_loop [] err default_ns = Gen [] err"
| "objects_loop (doc # docs) err default_ns =
     (case doc of
        PDict items \<Rightarrow>
          (let api_ver = dict_get items ''apiVersion'' PNone;
               kind = dict_get items ''kind'' PNone;
               meta = dict_get items ''metadata'' (PDict [])
           in case meta of
                PDict meta_items \<Rightarrow>
                  (let name = dict_get meta_items ''name'' PNone;
                       ns = (if truthy (dict_get meta_items ''namespace'' PNone)
                             then dict_get meta_items ''namespace'' PNone
                             else PStr default_ns)
                   in if truthy api_ver \<and> truthy kind \<and> truthy name
                      then gen_cons (api_ver, kind, ns, name) (objects_loop docs err default_ns)
                      else objects_loop docs err default_ns)
              | _ \<Rightarrow> Gen [] (Some AttributeError))
      | _ \<Rightarrow> objects_loop docs err default_ns)"

definition manifest_objects :: "lib \<Rightarrow> string \<Rightarrow> string \<Rightarrow> identity gen" where
  "manifest_objects L manifest_yaml default_ns =
     (case safe_load_all L manifest_yaml of
        Gen docs err \<Rightarrow> objects_loop docs err default_ns)"

section \<open>Live check and report\<close>

text \<open>
  \<open>object_exists\<close>. NotFoundError is a subclass of DynamicApiError, so the first handler
  catches both; ResourceNotFoundError is not. The second handler catches NotFoundError
  only.
\<close>

definition object_exists ::
  "cluster \<Rightarrow> pyval \<Rightarrow> pyval \<Rightarrow> pyval \<Rightarrow> pyval \<Rightarrow> error + bool" where
  "object_exists dyn_client api_version kind namespace name =
     (case resources_get dyn_client api_version kind of
        Inl e \<Rightarrow> if e \<in> {DynamicApiError, NotFoundError} then Inr False else Inl e
      | Inr namespaced \<Rightarrow>
          (case resource_get dyn_client api_version kind name
                  (if namespaced then Some namespace else None) of
             Inl e \<Rightarrow> if e = NotFoundError then Inr False else Inl e
           | Inr _ \<Rightarrow> Inr True))"

definition GREEN :: string where "GREEN = CHR 0x1B # ''[32m''"
definition RED :: string where "RED = CHR 0x1B # ''[31m''"
definition RESET :: string where "RESET = CHR 0x1B # ''[0m''"

text \<open>The two status texts, in UTF-8: a check mark or a cross, then the word.\<close>

definition EXISTS_TXT :: string where
  "EXISTS_TXT = [CHR 0xE2, CHR 0x9C, CHR 0x93] @ '' exists''"
definition ABSENT_TXT :: string where
  "ABSENT_TXT = [CHR 0xE2, CHR 0x9C, CHR 0x97] @ '' absent''"

text \<open>
  What \<open>main\<close> prints from line 171 on: one line for each resource, holding its kind,
  its name, the colour and the status text, and the final warning.
\<close>

datatype printed = Line pyval pyval string string | Warning

text \<open>
  The format \<open>{kind:<25}\<close> raises TypeError on None, on a list and on a dict.
\<close>

fun formattable :: "pyval \<Rightarrow> bool" where
  "formattable (PStr s) = True"
| "formattable (PInt i) = True"
| "formattable (PBool b) = True"
| "formattable PNone = False"
| "formattable (PList xs) = False"
| "formattable (PDict d) = False"

text \<open>
  \<open>sorted\<close> on the identities. On tuples of four strings it is the sort by the
  lexicographic order of the tuples, strings being compared character by character.
\<close>

fun str_key :: "identity \<Rightarrow> string \<times> string \<times> string \<times> string" where
  "str_key (PStr a, PStr k, PStr n, PStr m) = (a, k, n, m)"
| "str_key _ = ([], [], [], [])"

fun all_str :: "identity \<Rightarrow> bool" where
  "all_str (PStr a, PStr k, PStr n, PStr m) = True"
| "all_str _ = False"

definition sorted_ids :: "lib \<Rightarrow> identity list \<Rightarrow> error + identity list" where
  "sorted_ids L ids =
     (if list_all all_str ids then Inr (sort_key str_key ids) else sorted_mixed L ids)"

text \<open>
  The loop of \<open>main\<close>, lines 172 to 178, over the sorted identities, with the live check
  as an argument: the flag \<open>exists_any\<close>, what was printed, and the exception that
  stopped the loop, if one did.
\<close>

fun report_loop ::
  "(identity \<Rightarrow> error + bool) \<Rightarrow> identity list \<Rightarrow> bool \<Rightarrow> printed list
     \<Rightarrow> bool \<times> printed list \<times> error option" where
  "report_loop check [] exists_any out = (exists_any, out, None)"
| "report_loop check ((api_ver, kind, ns, name) # rest) exists_any out =
     (case check (api_ver, kind, ns, name) of
        Inl e \<Rightarrow> (exists_any, out, Some e)
      | Inr live \<Rightarrow>
          (let colour = (if live then GREEN else RED);
               status_txt = (if live then EXISTS_TXT else ABSENT_TXT);
               exists_any' = (exists_any \<or> live)
           in if formattable kind
              then report_loop check rest exists_any' (out @ [Line kind name colour status_txt])
              else (exists_any', out, Some TypeError)))"

text \<open>
  Lines 171 to 183 of \<open>main\<close>: what is printed, and the exception that ended the run,
  if one did. \<open>sorted\<close> consumes the generator first, so an exception of the extractor
  comes before any line.
\<close>

definition main_report ::
  "lib \<Rightarrow> (identity \<Rightarrow> error + bool) \<Rightarrow> string \<Rightarrow> string \<Rightarrow> printed list \<times> error option" where
  "main_report L check manifest namespace =
     (case manifest_objects L manifest namespace of
        Gen ids (Some e) \<Rightarrow> ([], Some e)
      | Gen ids None \<Rightarrow>
          (case sorted_ids L ids of
             Inl e \<Rightarrow> ([], Some e)
           | Inr ss \<Rightarrow>
               (case report_loop check ss False [] of
                  (exists_any, out, Some e) \<Rightarrow> (out, Some e)
                | (exists_any, out, None) \<Rightarrow>
                    (if \<not> exists_any then out @ [Warning] else out, None))))"

text \<open>The same lines with the live check of the program, \<open>object_exists\<close>.\<close>

definition main_report_live ::
  "lib \<Rightarrow> cluster \<Rightarrow> string \<Rightarrow> string \<Rightarrow> printed list \<times> error option" where
  "main_report_live L dyn manifest namespace =
     main_report L (\<lambda>(api_ver, kind, ns, name). object_exists dyn api_ver kind ns name)
       manifest namespace"

section \<open>The properties' own vocabulary\<close>

subsection \<open>Encoding a payload\<close>

text \<open>
  The encoders that build a payload: \<open>base64.b64encode\<close>, \<open>gzip.compress\<close> and
  \<open>json.dumps\<close>. One level of wrapping is base64, after gzip or not.
\<close>

record encoder =
  b64encode :: "bytes \<Rightarrow> bytes"
  gzip_compress :: "bytes \<Rightarrow> bytes"
  json_dumps :: "pyval \<Rightarrow> bytes"

definition wrap :: "encoder \<Rightarrow> bool \<Rightarrow> bytes \<Rightarrow> bytes" where
  "wrap E gz x = b64encode E (if gz then gzip_compress E x else x)"

definition release_record :: "int \<Rightarrow> string \<Rightarrow> pyval" where
  "release_record N M = PDict [(PStr ''version'', PInt N), (PStr ''manifest'', PStr M)]"

subsection \<open>The revision of a record, as specified\<close>

text \<open>
  The revision that a name carries: the digits that end it, when a dot and \<open>v\<close> stand
  before them, as in \<open>...v7\<close>.
\<close>

definition trailing_revision :: "string \<Rightarrow> int option" where
  "trailing_revision name =
     (let digits = rev (takeWhile digit_char (rev name));
          front = dropWhile digit_char (rev name)
      in if digits \<noteq> [] \<and> startswith ''v.'' front then Some (decimal digits) else None)"

text \<open>
  The two-tier rule of the specification, to compare \<open>secret_version\<close> with: the
  \<open>version\<close> label when it is all digits, else the revision that the name carries,
  else 0.
\<close>

definition spec_revision :: "secret \<Rightarrow> int" where
  "spec_revision sec =
     (let lbl = (case sec_labels sec ''version'' of None \<Rightarrow> [] | Some v \<Rightarrow> v) in
      if isdigit lbl then decimal lbl
      else (case trailing_revision (sec_name sec) of Some n \<Rightarrow> n | None \<Rightarrow> 0))"

subsection \<open>Documents that declare a resource\<close>

text \<open>
  A document whose \<open>metadata\<close> is absent or a mapping; a document that is not a mapping
  counts.
\<close>

fun metadata_ok :: "pyval \<Rightarrow> bool" where
  "metadata_ok (PDict items) =
     (case dict_get items ''metadata'' (PDict []) of PDict meta_items \<Rightarrow> True | _ \<Rightarrow> False)"
| "metadata_ok _ = True"

text \<open>\<open>metadata.name\<close> and \<open>metadata.namespace\<close> of a mapping; None when there is none.\<close>

definition metadata_field :: "(pyval \<times> pyval) list \<Rightarrow> string \<Rightarrow> pyval" where
  "metadata_field items k =
     (case dict_get items ''metadata'' (PDict []) of
        PDict meta_items \<Rightarrow> dict_get meta_items k PNone
      | _ \<Rightarrow> PNone)"

text \<open>
  A document declares a resource when it is a mapping with a non-empty \<open>apiVersion\<close>,
  \<open>kind\<close> and \<open>metadata.name\<close>. It has the three keys when they are there, whatever
  their values.
\<close>

fun declares :: "pyval \<Rightarrow> bool" where
  "declares (PDict items) =
     (truthy (dict_get items ''apiVersion'' PNone)
    \<and> truthy (dict_get items ''kind'' PNone)
    \<and> truthy (metadata_field items ''name''))"
| "declares _ = False"

fun has_keys :: "pyval \<Rightarrow> bool" where
  "has_keys (PDict items) =
     (map_of items (PStr ''apiVersion'') \<noteq> None
    \<and> map_of items (PStr ''kind'') \<noteq> None
    \<and> (case map_of items (PStr ''metadata'') of
          Some (PDict meta_items) \<Rightarrow> map_of meta_items (PStr ''name'') \<noteq> None
        | _ \<Rightarrow> False))"
| "has_keys _ = False"

text \<open>The identity that a declaring document stands for.\<close>

fun identity_of :: "string \<Rightarrow> pyval \<Rightarrow> identity" where
  "identity_of default_ns (PDict items) =
     (dict_get items ''apiVersion'' PNone,
      dict_get items ''kind'' PNone,
      (if truthy (metadata_field items ''namespace'')
       then metadata_field items ''namespace'' else PStr default_ns),
      metadata_field items ''name'')"
| "identity_of default_ns _ = (PNone, PNone, PNone, PNone)"

text \<open>The line of the report for an identity that is live or not.\<close>

fun line_of :: "bool \<Rightarrow> identity \<Rightarrow> printed" where
  "line_of live (api_ver, kind, ns, name) =
     Line kind name (if live then GREEN else RED) (if live then EXISTS_TXT else ABSENT_TXT)"

section \<open>Sample inputs\<close>

text \<open>
  A miniature codec with the interface of the libraries: base64 as a prefix, gzip as
  the magic bytes in front, and JSON for one record.
\<close>

definition mini_text :: bytes where
  "mini_text = ''{version: 3, manifest: m}''"

definition mini_enc :: encoder where
  "mini_enc = \<lparr> b64encode = (\<lambda>x. ''b64:'' @ x),
                gzip_compress = (\<lambda>x. gzip_magic @ x),
                json_dumps = (\<lambda>v. mini_text) \<rparr>"

definition mini_lib :: lib where
  "mini_lib =
     \<lparr> b64decode = (\<lambda>s. if startswith ''b64:'' s then Inr (drop 4 s) else Inl BinasciiError),
       gzip_decompress =
         (\<lambda>s. if startswith gzip_magic s then Inr (drop 2 s) else Inl BadGzipFile),
       json_loads =
         (\<lambda>s. if s = mini_text then Inr (release_record 3 ''m'') else Inl JSONDecodeError),
       safe_load_all = (\<lambda>s. Gen [] None),
       sorted_mixed = (\<lambda>ids. Inl TypeError) \<rparr>"

text \<open>Sample documents, and the YAML texts that load to them.\<close>

definition nl :: string where
  "nl = [CHR 0x0A]"

definition resource_doc :: "string \<Rightarrow> string \<Rightarrow> pyval" where
  "resource_doc kind name =
     PDict [(PStr ''apiVersion'', PStr ''v1''), (PStr ''kind'', PStr kind),
            (PStr ''metadata'', PDict [(PStr ''name'', PStr name)])]"

definition cm1_yaml :: string where
  "cm1_yaml = ''{apiVersion: v1, kind: ConfigMap, metadata: {name: cm1}}''"

definition web_yaml :: string where
  "web_yaml = ''{apiVersion: v1, kind: Service, metadata: {name: web}}''"

definition db_yaml :: string where
  "db_yaml = ''{apiVersion: v1, kind: Secret, metadata: {name: db}}''"

definition no_kind_yaml :: string where
  "no_kind_yaml = ''{apiVersion: v1, metadata: {name: cm1}}''"

definition no_kind_doc :: pyval where
  "no_kind_doc =
     PDict [(PStr ''apiVersion'', PStr ''v1''),
            (PStr ''metadata'', PDict [(PStr ''name'', PStr ''cm1'')])]"

definition empty_kind_yaml :: string where
  "empty_kind_yaml =
     ''{apiVersion: v1, kind: '' @ [CHR 0x22, CHR 0x22] @ '', metadata: {name: cm1}}''"

definition scalar_metadata_yaml :: string where
  "scalar_metadata_yaml = ''{apiVersion: v1, kind: ConfigMap, metadata: cm1}''"

definition scalar_metadata_doc :: pyval where
  "scalar_metadata_doc =
     PDict [(PStr ''apiVersion'', PStr ''v1''), (PStr ''kind'', PStr ''ConfigMap''),
            (PStr ''metadata'', PStr ''cm1'')]"


definition mixed_yaml :: string where
  "mixed_yaml = web_yaml @ nl @ ''---'' @ nl @ ''just text'' @ nl @ ''---'' @ nl @ cm1_yaml"

definition three_yaml :: string where
  "three_yaml = web_yaml @ nl @ ''---'' @ nl @ cm1_yaml @ nl @ ''---'' @ nl @ db_yaml"

text \<open>
  What CPython and PyYAML answer on the sample inputs. Base64 \<open>H4s=\<close> is the two magic
  bytes, on which \<open>gzip.decompress\<close> raises EOFError; base64 \<open>H4sIAAAAAAAAAwc=\<close> is a
  gzip header before a deflate block of a reserved type, on which it raises zlib.error;
  \<open>SDRzPQ==\<close> and \<open>SDRzSUFBQUFBQUFBQXdjPQ==\<close> are the base64 of these two texts.
  \<open>json.loads\<close> raises UnicodeDecodeError on bytes that start with the magic bytes and
  JSONDecodeError on the base64 texts. Other arguments do not occur below; they are
  answered by an exception.
\<close>

definition sample_yaml :: "string \<Rightarrow> pyval gen" where
  "sample_yaml s =
     (if s = [] then Gen [] None
      else if s = cm1_yaml then Gen [resource_doc ''ConfigMap'' ''cm1''] None
      else if s = no_kind_yaml then Gen [no_kind_doc] None
      else if s = empty_kind_yaml then Gen [resource_doc [] ''cm1''] None
      else if s = scalar_metadata_yaml then Gen [scalar_metadata_doc] None
      else if s = mixed_yaml
        then Gen [resource_doc ''Service'' ''web'', PStr ''just text'',
                  resource_doc ''ConfigMap'' ''cm1''] None
      else if s = three_yaml
        then Gen [resource_doc ''Service'' ''web'', resource_doc ''ConfigMap'' ''cm1'',
                  resource_doc ''Secret'' ''db''] None
      else Gen [] (Some YAMLError))"

definition bad_block_gzip :: bytes where
  "bad_block_gzip =
     gzip_magic @ [CHR 0x08, CHR 0x00, CHR 0x00, CHR 0x00, CHR 0x00, CHR 0x00, CHR 0x00,
                   CHR 0x03, CHR 0x07]"

definition sample_b64decode :: "bytes \<Rightarrow> error + bytes" where
  "sample_b64decode s =
     (if s = ''H4s='' then Inr gzip_magic
      else if s = ''SDRzPQ=='' then Inr ''H4s=''
      else if s = ''H4sIAAAAAAAAAwc='' then Inr bad_block_gzip
      else if s = ''SDRzSUFBQUFBQUFBQXdjPQ=='' then Inr ''H4sIAAAAAAAAAwc=''
      else Inl BinasciiError)"

definition sample_lib :: lib where
  "sample_lib =
     \<lparr> b64decode = sample_b64decode,
       gzip_decompress =
         (\<lambda>s. if s = gzip_magic then Inl EOFError
              else if s = bad_block_gzip then Inl ZlibError
              else Inl BadGzipFile),
       json_loads =
         (\<lambda>s. if startswith gzip_magic s then Inl UnicodeDecodeError
              else Inl JSONDecodeError),
       safe_load_all = sample_yaml,
       sorted_mixed = (\<lambda>ids. Inl TypeError) \<rparr>"

text \<open>Three stored records of one release, and a cluster that lists them.\<close>

definition sample_secrets :: "secret list" where
  "sample_secrets =
     [\<lparr>sec_name = ''sh.helm.release.v1.web.v1'', sec_labels = [''version'' \<mapsto> ''1''],
       sec_data = Map.empty\<rparr>,
      \<lparr>sec_name = ''sh.helm.release.v1.web.v3'', sec_labels = [''version'' \<mapsto> ''3''],
       sec_data = Map.empty\<rparr>,
      \<lparr>sec_name = ''sh.helm.release.v1.web.v2'', sec_labels = [''version'' \<mapsto> ''2''],
       sec_data = Map.empty\<rparr>]"

definition sample_cluster :: cluster where
  "sample_cluster =
     \<lparr> list_secrets = (\<lambda>ns sel. Inr sample_secrets),
       resources_get = (\<lambda>api_version kind. Inr True),
       resource_get = (\<lambda>api_version kind name ns. Inl NotFoundError) \<rparr>"

text \<open>
  Three records of the release \<open>x\<close> in the legacy naming, with the labels of the
  selector and no \<open>version\<close> label, in the order of the list, and a cluster that lists
  them.
\<close>

definition legacy_record :: "string \<Rightarrow> secret" where
  "legacy_record name =
     \<lparr>sec_name = name, sec_labels = [''owner'' \<mapsto> ''helm'', ''name'' \<mapsto> ''x''],
      sec_data = Map.empty\<rparr>"

definition legacy_secrets :: "secret list" where
  "legacy_secrets = [legacy_record ''x.v3'', legacy_record ''x.v7'', legacy_record ''x.v5'']"

definition legacy_cluster :: cluster where
  "legacy_cluster =
     \<lparr> list_secrets = (\<lambda>ns sel. Inr legacy_secrets),
       resources_get = (\<lambda>api_version kind. Inr True),
       resource_get = (\<lambda>api_version kind name ns. Inl NotFoundError) \<rparr>"

text \<open>A record of the legacy naming: no \<open>version\<close> label, the revision in the name.\<close>

definition legacy_secret :: secret where
  "legacy_secret =
     \<lparr>sec_name = ''sh.helm.release.v1.myrel.v7'', sec_labels = Map.empty,
      sec_data = Map.empty\<rparr>"

definition sample_oracle :: "identity \<Rightarrow> bool" where
  "sample_oracle i = (i = (PStr ''v1'', PStr ''ConfigMap'', PStr ''default'', PStr ''cm1''))"

section \<open>Resolver: the revision of a record\<close>

text \<open>
  The suffix of a path is empty or starts with its dot, and \<open>int\<close> accepts neither:
  the second branch of \<open>secret_version\<close> gives 0 for every name.
\<close>

lemma rfind_Some: "rfind c xs = Some i \<Longrightarrow> i < length xs \<and> xs ! i = c"
  by (induction xs arbitrary: i) (auto split: option.splits if_splits)

lemma suffix_dot: "suffix p = [] \<or> (\<exists>r. suffix p = CHR ''.'' # r)"
proof (cases "rfind CHR ''.'' (path_name p)")
  case None
  then show ?thesis by (simp add: suffix_def)
next
  case (Some i)
  then have i: "i < length (path_name p)" "path_name p ! i = CHR ''.''"
    using rfind_Some by blast+
  then have "drop i (path_name p) = CHR ''.'' # drop (Suc i) (path_name p)"
    by (metis Cons_nth_drop_Suc)
  with Some show ?thesis by (simp add: suffix_def Let_def)
qed

lemma py_strip_keep:
  "\<not> py_space x \<Longrightarrow> py_strip (x # xs) = x # rev (dropWhile py_space (rev xs))"
  by (auto simp: py_strip_def dropWhile_append dropWhile_eq_Nil_conv)

lemma py_int_dot: "py_int (CHR ''.'' # r) = None"
proof -
  have "\<not> py_space CHR ''.''" by (simp add: py_space_def)
  then show ?thesis
    using py_strip_keep [of "CHR ''.''" r]
    by (simp add: py_int_def int_unsigned_def digit_char_def)
qed

lemma py_int_empty: "py_int [] = None"
  by (simp add: py_int_def py_strip_def)

lemma suffix_not_int: "py_int (lstrip ''v'' (suffix p)) = None"
  using suffix_dot [of p] by (auto simp: lstrip_def py_int_dot py_int_empty)

lemma secret_version_fallback:
  "\<not> isdigit (case sec_labels sec ''version'' of None \<Rightarrow> [] | Some v \<Rightarrow> v) \<Longrightarrow>
   secret_version sec = 0"
  by (simp add: secret_version_def suffix_not_int)

text \<open>On a string that \<open>isdigit\<close> accepts, \<open>int\<close> does not raise.\<close>

lemma int_digits_all:
  "xs \<noteq> [] \<Longrightarrow> list_all digit_char xs \<Longrightarrow>
   int_digits acc xs = Some (foldl (\<lambda>n c. 10 * n + digit_val c) acc xs)"
  by (induction acc xs rule: int_digits.induct) simp_all

lemma digit_not_space: "digit_char c \<Longrightarrow> \<not> py_space c"
  by (auto simp: digit_char_def py_space_def)

lemma dropWhile_none: "\<forall>c\<in>set s. \<not> P c \<Longrightarrow> dropWhile P s = s"
  by (cases s) auto

lemma py_strip_digits: "list_all digit_char s \<Longrightarrow> py_strip s = s"
proof -
  assume a: "list_all digit_char s"
  then have n: "\<forall>c\<in>set s. \<not> py_space c" by (auto simp: list_all_iff digit_not_space)
  then have "dropWhile py_space s = s" by (rule dropWhile_none)
  moreover from n have "dropWhile py_space (rev s) = rev s" by (intro dropWhile_none) simp
  ultimately show ?thesis by (simp add: py_strip_def)
qed

lemma py_int_isdigit: "isdigit s \<Longrightarrow> py_int s = Some (decimal s)"
proof -
  assume a: "isdigit s"
  then obtain c cs where s: "s = c # cs" by (cases s) (auto simp: isdigit_def)
  from a have all: "list_all digit_char s" by (simp add: isdigit_def)
  then have d: "digit_char c" using s by simp
  then have ne: "c \<noteq> CHR ''+''" "c \<noteq> CHR ''-''" by (auto simp: digit_char_def)
  have "int_digits 0 s = Some (decimal s)"
    using int_digits_all [of s 0] all s by (simp add: decimal_def)
  then have "int_unsigned s = Some (decimal s)" using s d by (simp add: int_unsigned_def)
  moreover have "py_strip s = s" using all by (rule py_strip_digits)
  ultimately show ?thesis using s ne by (simp add: py_int_def)
qed


lemma secret_version_label:
  "sec_labels sec ''version'' = Some lbl \<Longrightarrow> isdigit lbl \<Longrightarrow> secret_version sec = decimal lbl"
  by (simp add: secret_version_def)

lemma sample_versions: "map secret_version sample_secrets = [1, 3, 2]"
  by code_simp

text \<open>
  C1. The claim wants the revision of a record without a numeric \<open>version\<close> label to be
  the integer at the end of a name such as \<open>...v7\<close>. The code gives such a record the
  revision 0: the suffix of the name is \<open>.v7\<close>, \<open>lstrip("v")\<close> leaves it as it is, since
  it starts with the dot, and \<open>int\<close> rejects it.
\<close>

theorem secret_version_legacy_name:
  "suffix (sec_name legacy_secret) = ''.v7''
   \<and> lstrip ''v'' (suffix (sec_name legacy_secret)) = ''.v7''
   \<and> py_int ''.v7'' = None
   \<and> secret_version legacy_secret = 0"
  by code_simp

section \<open>Resolver: choosing a record\<close>

text \<open>The loop of \<open>max\<close> keeps the first item of the largest key.\<close>

lemma max_loop_mem: "max_loop key b xs \<in> set (b # xs)"
  by (induction xs arbitrary: b) auto

lemma max_loop_ge_best: "key b \<le> key (max_loop key b xs)"
proof (induction xs arbitrary: b)
  case Nil
  show ?case by simp
next
  case (Cons x xs)
  have "key b \<le> key (if key x > key b then x else b)" by simp
  also have "\<dots> \<le> key (max_loop key (if key x > key b then x else b) xs)" by (rule Cons.IH)
  finally show ?case by simp
qed

lemma max_loop_ge: "x \<in> set (b # xs) \<Longrightarrow> key x \<le> key (max_loop key b xs)"
proof (induction xs arbitrary: b)
  case Nil
  then show ?case by simp
next
  case (Cons y ys)
  let ?b = "if key y > key b then y else b"
  from Cons.prems consider "x = b" | "x = y" | "x \<in> set ys" by auto
  then show ?case
  proof cases
    case 1
    have "key b \<le> key ?b" by simp
    also have "\<dots> \<le> key (max_loop key ?b ys)" by (rule max_loop_ge_best)
    finally show ?thesis using 1 by simp
  next
    case 2
    have "key y \<le> key ?b" by simp
    also have "\<dots> \<le> key (max_loop key ?b ys)" by (rule max_loop_ge_best)
    finally show ?thesis using 2 by simp
  next
    case 3
    then have "x \<in> set (?b # ys)" by simp
    then have "key x \<le> key (max_loop key ?b ys)" by (rule Cons.IH)
    then show ?thesis by simp
  qed
qed

lemma max_loop_first:
  "find (\<lambda>c. key c = key (max_loop key b xs)) (b # xs) = Some (max_loop key b xs)"
proof (induction xs arbitrary: b)
  case Nil
  show ?case by simp
next
  case (Cons y ys)
  define b' where "b' = (if key y > key b then y else b)"
  define m where "m = max_loop key b' ys"
  have goal: "max_loop key b (y # ys) = m" by (simp add: m_def b'_def)
  have ih: "find (\<lambda>c. key c = key m) (b' # ys) = Some m"
    unfolding m_def by (rule Cons.IH)
  have ge: "key b' \<le> key m" unfolding m_def by (rule max_loop_ge_best)
  have "find (\<lambda>c. key c = key m) (b # y # ys) = Some m"
  proof (cases "key y > key b")
    case True
    then have b': "b' = y" by (simp add: b'_def)
    with ge True have "key b \<noteq> key m" by simp
    then have "find (\<lambda>c. key c = key m) (b # y # ys) = find (\<lambda>c. key c = key m) (y # ys)"
      by simp
    also have "\<dots> = Some m" using ih by (simp only: b')
    finally show ?thesis .
  next
    case False
    then have b': "b' = b" by (simp add: b'_def)
    show ?thesis
    proof (cases "key b = key m")
      case True
      with ih have "m = b" by (simp add: b')
      with True show ?thesis by simp
    next
      case ne: False
      with ge False have "key y \<noteq> key m" by (simp add: b')
      with ne have "find (\<lambda>c. key c = key m) (b # y # ys) = find (\<lambda>c. key c = key m) ys"
        by simp
      also have "\<dots> = find (\<lambda>c. key c = key m) (b # ys)" using ne by simp
      also have "\<dots> = Some m" using ih by (simp only: b')
      finally show ?thesis .
    qed
  qed
  then show ?case by (simp only: goal)
qed

lemma find_SomeD: "find P xs = Some x \<Longrightarrow> x \<in> set xs \<and> P x"
  by (induction xs) (auto split: if_splits)


text \<open>
  Measured by the revision that \<open>secret_version\<close> computes, the choice of the latest
  record is the first candidate whose revision no candidate exceeds.
\<close>

lemma find_release_secret_latest_by_key:
  assumes "list_secrets dyn_client release_ns (OWNER_LABEL @ '',name='' @ release_name) = Inr candidates"
      and "candidates \<noteq> []"
  shows "\<exists>sec. find_release_secret dyn_client release_name release_ns None = Inr (Some sec)
           \<and> sec \<in> set candidates
           \<and> (\<forall>c\<in>set candidates. secret_version c \<le> secret_version sec)
           \<and> find (\<lambda>c. secret_version c = secret_version sec) candidates = Some sec"
proof -
  from assms(2) obtain b xs where c: "candidates = b # xs" by (cases candidates) auto
  let ?m = "max_loop secret_version b xs"
  have "find_release_secret dyn_client release_name release_ns None = Inr (Some ?m)"
    using assms(1) c by (simp add: find_release_secret_def)
  moreover have "?m \<in> set candidates" unfolding c by (rule max_loop_mem)
  moreover have "\<forall>x\<in>set candidates. secret_version x \<le> secret_version ?m"
  proof
    fix x assume "x \<in> set candidates"
    then have "x \<in> set (b # xs)" by (simp only: c)
    then show "secret_version x \<le> secret_version ?m" by (rule max_loop_ge)
  qed
  moreover have "find (\<lambda>x. secret_version x = secret_version ?m) candidates = Some ?m"
    unfolding c by (rule max_loop_first)
  ultimately show ?thesis by (intro exI [of _ ?m] conjI)
qed


lemma find_release_secret_latest_example:
  "list_secrets sample_cluster ''default'' (OWNER_LABEL @ '',name='' @ ''web'') = Inr sample_secrets
   \<and> sample_secrets \<noteq> []
   \<and> (\<exists>sec. find_release_secret sample_cluster ''web'' ''default'' None = Inr (Some sec)
          \<and> sec \<in> set sample_secrets
          \<and> (\<forall>c\<in>set sample_secrets. secret_version c \<le> secret_version sec)
          \<and> find (\<lambda>c. secret_version c = secret_version sec) sample_secrets = Some sec)"
proof -
  have h1: "list_secrets sample_cluster ''default'' (OWNER_LABEL @ '',name='' @ ''web'') = Inr sample_secrets"
    by (simp add: sample_cluster_def)
  have h2: "sample_secrets \<noteq> []" by (simp add: sample_secrets_def)
  show ?thesis using find_release_secret_latest_by_key [OF h1 h2] h1 h2 by simp
qed

text \<open>
  Measured by the revision that \<open>secret_version\<close> computes, a requested revision \<open>r\<close>,
  0 included, gives a candidate of revision \<open>r\<close> when there is one, and \<open>None\<close>, the
  "not found" result, when there is none.
\<close>

lemma find_release_secret_pinned_by_key:
  assumes "list_secrets dyn_client release_ns (OWNER_LABEL @ '',name='' @ release_name) = Inr candidates"
  shows "((\<exists>c\<in>set candidates. secret_version c = r) \<longrightarrow>
            (\<exists>sec. find_release_secret dyn_client release_name release_ns (Some r) = Inr (Some sec)
               \<and> sec \<in> set candidates \<and> secret_version sec = r))
       \<and> ((\<forall>c\<in>set candidates. secret_version c \<noteq> r) \<longrightarrow>
            find_release_secret dyn_client release_name release_ns (Some r) = Inr None)"
proof -
  let ?f = "find (\<lambda>sec. secret_version sec = r) candidates"
  have res: "find_release_secret dyn_client release_name release_ns (Some r) = Inr ?f"
    using assms by (cases candidates) (simp_all add: find_release_secret_def)
  show ?thesis
  proof (intro conjI impI)
    assume "\<exists>c\<in>set candidates. secret_version c = r"
    then have "?f \<noteq> None" by (auto simp: find_None_iff)
    then obtain sec where s: "?f = Some sec" by (cases ?f) simp_all
    then have "sec \<in> set candidates \<and> secret_version sec = r"
      by (rule find_SomeD)
    with res s show "\<exists>sec. find_release_secret dyn_client release_name release_ns (Some r) = Inr (Some sec)
               \<and> sec \<in> set candidates \<and> secret_version sec = r" by simp
  next
    assume "\<forall>c\<in>set candidates. secret_version c \<noteq> r"
    then have "?f = None" by (simp add: find_None_iff)
    with res show "find_release_secret dyn_client release_name release_ns (Some r) = Inr None" by simp
  qed
qed

lemma find_release_secret_pinned_example:
  "list_secrets sample_cluster ''default'' (OWNER_LABEL @ '',name='' @ ''web'') = Inr sample_secrets
   \<and> (\<exists>sec. find_release_secret sample_cluster ''web'' ''default'' (Some 2) = Inr (Some sec)
          \<and> sec \<in> set sample_secrets \<and> secret_version sec = 2)
   \<and> find_release_secret sample_cluster ''web'' ''default'' (Some 0) = Inr None"
proof -
  have h1: "list_secrets sample_cluster ''default'' (OWNER_LABEL @ '',name='' @ ''web'') = Inr sample_secrets"
    by (simp add: sample_cluster_def)
  have "set (map secret_version sample_secrets) = {1, 2, 3}"
    by (auto simp: sample_versions)
  then have v: "secret_version ` set sample_secrets = {1, 2, 3}" by simp
  have two: "\<exists>c\<in>set sample_secrets. secret_version c = 2"
    using v by (metis imageE insertI1 insert_commute)
  have zero: "\<forall>c\<in>set sample_secrets. secret_version c \<noteq> 0"
    using v by force
  show ?thesis
    using find_release_secret_pinned_by_key [OF h1, of 2]
      find_release_secret_pinned_by_key [OF h1, of 0]
      h1 two zero by simp
qed

text \<open>
  That revision is not the one of the specification where the name carries it: the three
  legacy records have the revisions 3, 7 and 5, and \<open>secret_version\<close> gives 0 to each.
\<close>

lemma legacy_versions:
  "map spec_revision legacy_secrets = [3, 7, 5]" "secret_version (legacy_record name) = 0"
proof -
  show "map spec_revision legacy_secrets = [3, 7, 5]" by code_simp
  show "secret_version (legacy_record name) = 0"
    by (simp add: secret_version_fallback legacy_record_def isdigit_def)
qed

text \<open>
  C6. The claim wants the record of the largest resolved revision when no revision is
  requested. Of the legacy records of revisions 3, 7 and 5 the code returns the first
  in the list, the one of revision 3: their keys are all 0 and \<open>max\<close> keeps the first.
\<close>

theorem find_release_secret_latest_legacy:
  "list_secrets legacy_cluster ''default'' (OWNER_LABEL @ '',name='' @ ''x'') = Inr legacy_secrets
   \<and> map spec_revision legacy_secrets = [3, 7, 5]
   \<and> map secret_version legacy_secrets = [0, 0, 0]
   \<and> find_release_secret legacy_cluster ''x'' ''default'' None
       = Inr (Some (legacy_record ''x.v3''))"
proof -
  have l: "list_secrets legacy_cluster ''default'' (OWNER_LABEL @ '',name='' @ ''x'')
             = Inr legacy_secrets"
    by (simp add: legacy_cluster_def)
  have k: "map secret_version legacy_secrets = [0, 0, 0]"
    by (simp add: legacy_versions(2) legacy_secrets_def)
  have r: "find_release_secret legacy_cluster ''x'' ''default'' None
             = Inr (Some (legacy_record ''x.v3''))"
    by (simp add: legacy_versions(2) find_release_secret_def legacy_cluster_def
        legacy_secrets_def)
  show ?thesis by (intro conjI l legacy_versions(1) k r)
qed

text \<open>
  C7. The claim wants the record whose resolved revision is the requested one, or "not
  found". Among the legacy records of revisions 3, 7 and 5 the code finds none for the
  revision 7, and for the revision 0 it returns the record of revision 3.
\<close>

theorem find_release_secret_pinned_legacy:
  "list_secrets legacy_cluster ''default'' (OWNER_LABEL @ '',name='' @ ''x'') = Inr legacy_secrets
   \<and> map spec_revision legacy_secrets = [3, 7, 5]
   \<and> find_release_secret legacy_cluster ''x'' ''default'' (Some 7) = Inr None
   \<and> find_release_secret legacy_cluster ''x'' ''default'' (Some 0)
       = Inr (Some (legacy_record ''x.v3''))"
proof -
  have l: "list_secrets legacy_cluster ''default'' (OWNER_LABEL @ '',name='' @ ''x'')
             = Inr legacy_secrets"
    by (simp add: legacy_cluster_def)
  have r7: "find_release_secret legacy_cluster ''x'' ''default'' (Some 7) = Inr None"
    by (simp add: legacy_versions(2) find_release_secret_def legacy_cluster_def
        legacy_secrets_def)
  have r0: "find_release_secret legacy_cluster ''x'' ''default'' (Some 0)
              = Inr (Some (legacy_record ''x.v3''))"
    by (simp add: legacy_versions(2) find_release_secret_def legacy_cluster_def
        legacy_secrets_def)
  show ?thesis by (intro conjI l legacy_versions(1) r7 r0)
qed

section \<open>Decoder\<close>

text \<open>
  One level of wrapping is undone by one round of the decoder, when base64 and gzip
  decoding undo their encoders and gzip output starts with the magic bytes.
\<close>

lemma try_decompress_plain: "\<not> startswith gzip_magic x \<Longrightarrow> try_decompress L x = Inr x"
  by (simp add: try_decompress_def)

lemma try_decompress_gz:
  "startswith gzip_magic z \<Longrightarrow> gzip_decompress L z = Inr x \<Longrightarrow> try_decompress L z = Inr x"
  by (simp add: try_decompress_def)

lemma unwrap_level:
  assumes "b64decode L (wrap E g x) = Inr (if g then gzip_compress E x else x)"
      and "gzip_decompress L (gzip_compress E x) = Inr x"
      and "startswith gzip_magic (gzip_compress E x)"
      and "g \<or> \<not> startswith gzip_magic x"
  shows "\<exists>d. b64decode L (wrap E g x) = Inr d \<and> try_decompress L d = Inr x"
proof (cases g)
  case True
  with assms(1,2,3) show ?thesis by (simp add: try_decompress_gz)
next
  case False
  with assms(1,4) show ?thesis by (simp add: try_decompress_plain)
qed

lemma decode_one:
  assumes "b64decode L enc = Inr d" "try_decompress L d = Inr raw" "json_loads L raw = Inr v"
  shows "decode_release_payload L enc = Inr v"
  using assms by (simp add: decode_release_payload_def)

lemma decode_two:
  assumes "b64decode L enc = Inr d" "try_decompress L d = Inr raw"
    "json_loads L raw = Inl JSONDecodeError"
    "b64decode L raw = Inr d2" "try_decompress L d2 = Inr raw2"
  shows "decode_release_payload L enc =
           (case json_loads L raw2 of Inl e \<Rightarrow> Inl RuntimeError | Inr v \<Rightarrow> Inr v)"
  using assms by (simp add: decode_release_payload_def split: sum.splits)

text \<open>
  After a first parse that fails with JSONDecodeError there is one more round and no
  other: the decoder returns the value of the second round or raises RuntimeError.
\<close>

lemma decode_second_round_last:
  assumes "b64decode L enc = Inr d" "try_decompress L d = Inr raw"
      and "json_loads L raw = Inl JSONDecodeError"
  shows "decode_release_payload L enc = Inl RuntimeError
       \<or> (\<exists>d2 raw2 v. b64decode L raw = Inr d2 \<and> try_decompress L d2 = Inr raw2
              \<and> json_loads L raw2 = Inr v \<and> decode_release_payload L enc = Inr v)"
  using assms by (auto simp: decode_release_payload_def split: sum.splits)

text \<open>The miniature codec keeps the laws of the libraries.\<close>

lemma mini_b64: "b64decode mini_lib (b64encode mini_enc x) = Inr x"
  by (simp add: mini_lib_def mini_enc_def startswith_def)

lemma mini_gzip: "gzip_decompress mini_lib (gzip_compress mini_enc x) = Inr x"
  by (simp add: mini_lib_def mini_enc_def startswith_def gzip_magic_def)

lemma mini_magic: "startswith gzip_magic (gzip_compress mini_enc x)"
  by (simp add: mini_enc_def startswith_def)

lemma mini_b64_plain: "\<not> startswith gzip_magic (b64encode mini_enc x)"
  by (simp add: mini_enc_def startswith_def gzip_magic_def)

lemma mini_wrap_not_json: "json_loads mini_lib (wrap mini_enc g x) = Inl JSONDecodeError"
  by (simp add: mini_lib_def mini_enc_def wrap_def mini_text_def)

lemma mini_loads: "json_loads mini_lib mini_text = Inr (release_record 3 ''m'')"
  by (simp add: mini_lib_def)

lemma mini_text_plain: "\<not> startswith gzip_magic mini_text"
  by (simp add: startswith_def gzip_magic_def mini_text_def)

text \<open>
  C2. Let \<open>json.loads\<close> raise UnicodeDecodeError on bytes that start with the gzip magic,
  as it does. Where the decoder meets bytes that start with the magic and on which
  \<open>gzip.decompress\<close> fails, decoding fails. OSError, EOFError and BadGzipFile are
  swallowed: \<open>_try_decompress\<close> returns the bytes as they came, the JSON parser gets
  them, and its exception ends the decoding. Any other exception, such as zlib.error,
  leaves \<open>_try_decompress\<close>. In the first round the decoding ends with that exception
  of the parser or of gzip; in the second round it ends with the decoder's RuntimeError.
\<close>

theorem corrupt_gzip_outcome:
  assumes parser: "\<And>s. startswith gzip_magic s \<Longrightarrow> json_loads L s = Inl UnicodeDecodeError"
      and magic: "startswith gzip_magic data"
      and fails: "gzip_decompress L data = Inl e"
  shows "try_decompress L data
           = (if e \<in> {OSError, EOFError, BadGzipFile} then Inr data else Inl e)
       \<and> (b64decode L encoded = Inr data \<longrightarrow>
            decode_release_payload L encoded
              = Inl (if e \<in> {OSError, EOFError, BadGzipFile} then UnicodeDecodeError else e))
       \<and> (\<forall>d1 raw. b64decode L encoded = Inr d1 \<and> try_decompress L d1 = Inr raw
                    \<and> json_loads L raw = Inl JSONDecodeError \<and> b64decode L raw = Inr data \<longrightarrow>
            decode_release_payload L encoded = Inl RuntimeError)"
proof (intro conjI impI allI)
  show t: "try_decompress L data
             = (if e \<in> {OSError, EOFError, BadGzipFile} then Inr data else Inl e)"
    using magic fails by (simp add: try_decompress_def)
  have p: "json_loads L data = Inl UnicodeDecodeError" using magic by (rule parser)
  {
    assume "b64decode L encoded = Inr data"
    then show "decode_release_payload L encoded
                 = Inl (if e \<in> {OSError, EOFError, BadGzipFile} then UnicodeDecodeError else e)"
      using t p by (simp add: decode_release_payload_def)
  }
  {
    fix d1 raw
    assume "b64decode L encoded = Inr d1 \<and> try_decompress L d1 = Inr raw
              \<and> json_loads L raw = Inl JSONDecodeError \<and> b64decode L raw = Inr data"
    then show "decode_release_payload L encoded = Inl RuntimeError"
      using t p by (simp add: decode_release_payload_def)
  }
qed

theorem corrupt_gzip_outcome_witness:
  "try_decompress sample_lib gzip_magic = Inr gzip_magic
   \<and> decode_release_payload sample_lib ''H4s='' = Inl UnicodeDecodeError
   \<and> decode_release_payload sample_lib ''SDRzPQ=='' = Inl RuntimeError
   \<and> try_decompress sample_lib bad_block_gzip = Inl ZlibError
   \<and> decode_release_payload sample_lib ''H4sIAAAAAAAAAwc='' = Inl ZlibError
   \<and> decode_release_payload sample_lib ''SDRzSUFBQUFBQUFBQXdjPQ=='' = Inl RuntimeError"
proof -
  have parser: "\<And>s. startswith gzip_magic s \<Longrightarrow> json_loads sample_lib s = Inl UnicodeDecodeError"
    by (simp add: sample_lib_def)
  have m1: "startswith gzip_magic gzip_magic" by (simp add: startswith_def)
  have m2: "startswith gzip_magic bad_block_gzip"
    by (simp add: startswith_def bad_block_gzip_def gzip_magic_def)
  have f1: "gzip_decompress sample_lib gzip_magic = Inl EOFError" by (simp add: sample_lib_def)
  have f2: "gzip_decompress sample_lib bad_block_gzip = Inl ZlibError"
    by (simp add: sample_lib_def bad_block_gzip_def gzip_magic_def)
  have b1: "b64decode sample_lib ''H4s='' = Inr gzip_magic"
    by (simp add: sample_lib_def sample_b64decode_def)
  have b2: "b64decode sample_lib ''H4sIAAAAAAAAAwc='' = Inr bad_block_gzip"
    by (simp add: sample_lib_def sample_b64decode_def)
  have r1: "b64decode sample_lib ''SDRzPQ=='' = Inr ''H4s=''
            \<and> try_decompress sample_lib ''H4s='' = Inr ''H4s=''
            \<and> json_loads sample_lib ''H4s='' = Inl JSONDecodeError
            \<and> b64decode sample_lib ''H4s='' = Inr gzip_magic"
    by (simp add: sample_lib_def sample_b64decode_def try_decompress_def startswith_def
        gzip_magic_def)
  have r2: "b64decode sample_lib ''SDRzSUFBQUFBQUFBQXdjPQ=='' = Inr ''H4sIAAAAAAAAAwc=''
            \<and> try_decompress sample_lib ''H4sIAAAAAAAAAwc='' = Inr ''H4sIAAAAAAAAAwc=''
            \<and> json_loads sample_lib ''H4sIAAAAAAAAAwc='' = Inl JSONDecodeError
            \<and> b64decode sample_lib ''H4sIAAAAAAAAAwc='' = Inr bad_block_gzip"
    by (simp add: sample_lib_def sample_b64decode_def try_decompress_def startswith_def
        gzip_magic_def)
  note w1 = corrupt_gzip_outcome [OF parser m1 f1]
  note w2 = corrupt_gzip_outcome [OF parser m2 f2]
  have "try_decompress sample_lib gzip_magic = Inr gzip_magic"
    using w1 [of "''H4s=''"] by simp
  moreover have "decode_release_payload sample_lib ''H4s='' = Inl UnicodeDecodeError"
    using w1 [of "''H4s=''"] b1 by simp
  moreover have "decode_release_payload sample_lib ''SDRzPQ=='' = Inl RuntimeError"
    using w1 [of "''SDRzPQ==''"] r1 by blast
  moreover have "try_decompress sample_lib bad_block_gzip = Inl ZlibError"
    using w2 [of "''H4s=''"] by simp
  moreover have "decode_release_payload sample_lib ''H4sIAAAAAAAAAwc='' = Inl ZlibError"
    using w2 [of "''H4sIAAAAAAAAAwc=''"] b2 by simp
  moreover have "decode_release_payload sample_lib ''SDRzSUFBQUFBQUFBQXdjPQ=='' = Inl RuntimeError"
    using w2 [of "''SDRzSUFBQUFBQUFBQXdjPQ==''"] r2 by blast
  ultimately show ?thesis by (intro conjI)
qed

text \<open>
  The claim as the specification has it fails on a truncated gzip stream: the two magic
  bytes alone. They come back from \<open>_try_decompress\<close> unchanged, and the exception that
  ends the decoding is the one of the JSON parser, not the decoder's RuntimeError.
\<close>

theorem corrupt_gzip_counterexample:
  "startswith gzip_magic gzip_magic
   \<and> gzip_decompress sample_lib gzip_magic = Inl EOFError
   \<and> try_decompress sample_lib gzip_magic = Inr gzip_magic
   \<and> decode_release_payload sample_lib ''H4s='' \<noteq> Inl RuntimeError
   \<and> decode_release_payload sample_lib ''H4s='' = json_loads sample_lib gzip_magic"
  by (simp add: decode_release_payload_def try_decompress_def sample_lib_def
      sample_b64decode_def startswith_def gzip_magic_def)

text \<open>
  C4. Let base64 and gzip decoding undo their encoders, gzip output start with the magic
  bytes and base64 text not, and let the text of a base64 level not be JSON. Then a
  serialised record wrapped twice decodes to the record, and wrapped three times it
  ends in the decoder's RuntimeError, the second round being the last. Each level is
  base64, after gzip or not.
\<close>

theorem decode_two_levels:
  assumes b64: "\<And>x. b64decode L (b64encode E x) = Inr x"
      and gz: "\<And>x. gzip_decompress L (gzip_compress E x) = Inr x"
      and magic: "\<And>x. startswith gzip_magic (gzip_compress E x)"
      and b64_plain: "\<And>x. \<not> startswith gzip_magic (b64encode E x)"
      and loads: "json_loads L js = Inr release"
      and plain: "\<not> startswith gzip_magic js"
      and b1: "\<And>g. json_loads L (wrap E g js) = Inl JSONDecodeError"
      and b2: "\<And>g g'. json_loads L (wrap E g (wrap E g' js)) = Inl JSONDecodeError"
  shows "decode_release_payload L (wrap E g1 (wrap E g2 js)) = Inr release
       \<and> decode_release_payload L (wrap E g1 (wrap E g2 (wrap E g3 js))) = Inl RuntimeError"
proof
  have u: "\<And>g x. b64decode L (wrap E g x) = Inr (if g then gzip_compress E x else x)"
    by (simp add: wrap_def b64)
  have w: "\<And>g x. \<not> startswith gzip_magic (wrap E g x)"
    by (simp add: wrap_def b64_plain)
  obtain d1 where d1: "b64decode L (wrap E g1 (wrap E g2 js)) = Inr d1"
      "try_decompress L d1 = Inr (wrap E g2 js)"
    using unwrap_level [OF u gz magic, of g1 "wrap E g2 js"] w by blast
  obtain d2 where d2: "b64decode L (wrap E g2 js) = Inr d2" "try_decompress L d2 = Inr js"
    using unwrap_level [OF u gz magic, of g2 js] plain by blast
  have "decode_release_payload L (wrap E g1 (wrap E g2 js)) =
          (case json_loads L js of Inl e \<Rightarrow> Inl RuntimeError | Inr v \<Rightarrow> Inr v)"
    using d1 b1 d2 by (rule decode_two)
  then show "decode_release_payload L (wrap E g1 (wrap E g2 js)) = Inr release"
    by (simp add: loads)
  let ?w3 = "wrap E g3 js"
  obtain e1 where e1: "b64decode L (wrap E g1 (wrap E g2 ?w3)) = Inr e1"
      "try_decompress L e1 = Inr (wrap E g2 ?w3)"
    using unwrap_level [OF u gz magic, of g1 "wrap E g2 ?w3"] w by blast
  obtain e2 where e2: "b64decode L (wrap E g2 ?w3) = Inr e2" "try_decompress L e2 = Inr ?w3"
    using unwrap_level [OF u gz magic, of g2 ?w3] w by blast
  have "decode_release_payload L (wrap E g1 (wrap E g2 ?w3)) =
          (case json_loads L ?w3 of Inl e \<Rightarrow> Inl RuntimeError | Inr v \<Rightarrow> Inr v)"
    using e1 b2 e2 by (rule decode_two)
  then show "decode_release_payload L (wrap E g1 (wrap E g2 ?w3)) = Inl RuntimeError"
    by (simp add: b1)
qed

theorem decode_two_levels_witness:
  "(\<forall>x. b64decode mini_lib (b64encode mini_enc x) = Inr x)
   \<and> (\<forall>x. gzip_decompress mini_lib (gzip_compress mini_enc x) = Inr x)
   \<and> (\<forall>x. startswith gzip_magic (gzip_compress mini_enc x))
   \<and> (\<forall>x. \<not> startswith gzip_magic (b64encode mini_enc x))
   \<and> json_loads mini_lib mini_text = Inr (release_record 3 ''m'')
   \<and> \<not> startswith gzip_magic mini_text
   \<and> (\<forall>g. json_loads mini_lib (wrap mini_enc g mini_text) = Inl JSONDecodeError)
   \<and> (\<forall>g g'. json_loads mini_lib (wrap mini_enc g (wrap mini_enc g' mini_text))
                = Inl JSONDecodeError)
   \<and> decode_release_payload mini_lib (wrap mini_enc True (wrap mini_enc False mini_text))
        = Inr (release_record 3 ''m'')
   \<and> decode_release_payload mini_lib
        (wrap mini_enc True (wrap mini_enc False (wrap mini_enc True mini_text)))
        = Inl RuntimeError"
  using decode_two_levels [OF mini_b64 mini_gzip mini_magic mini_b64_plain mini_loads mini_text_plain
      mini_wrap_not_json mini_wrap_not_json, of True False True]
    mini_b64 mini_gzip mini_magic mini_b64_plain mini_loads mini_text_plain mini_wrap_not_json
  by simp

text \<open>
  C5. Let base64 and gzip decoding undo their encoders, gzip output start with the magic
  bytes, and let the JSON text of the
  record with version \<open>N\<close> and manifest \<open>M\<close> load back to the record and not start with
  the gzip magic. Then that text, wrapped once, with gzip or without, decodes to the
  record: \<open>release.get("version", "?")\<close> is \<open>N\<close> and \<open>release.get("manifest")\<close> is \<open>M\<close>.
\<close>

theorem decode_roundtrip:
  assumes b64: "\<And>x. b64decode L (b64encode E x) = Inr x"
      and gz: "\<And>x. gzip_decompress L (gzip_compress E x) = Inr x"
      and magic: "\<And>x. startswith gzip_magic (gzip_compress E x)"
      and loads: "json_loads L (json_dumps E (release_record N M)) = Inr (release_record N M)"
      and plain: "\<not> startswith gzip_magic (json_dumps E (release_record N M))"
  shows "\<exists>items. decode_release_payload L (wrap E g (json_dumps E (release_record N M)))
                   = Inr (PDict items)
               \<and> dict_get items ''version'' (PStr ''?'') = PInt N
               \<and> dict_get items ''manifest'' PNone = PStr M"
proof -
  let ?js = "json_dumps E (release_record N M)"
  have u: "b64decode L (wrap E g ?js) = Inr (if g then gzip_compress E ?js else ?js)"
    by (simp add: wrap_def b64)
  obtain d where d: "b64decode L (wrap E g ?js) = Inr d" "try_decompress L d = Inr ?js"
    using unwrap_level [OF u gz magic] plain by blast
  have "decode_release_payload L (wrap E g ?js) = Inr (release_record N M)"
    using d loads by (rule decode_one)
  then show ?thesis by (simp add: release_record_def dict_get_def)
qed

theorem decode_roundtrip_witness:
  "(\<forall>x. b64decode mini_lib (b64encode mini_enc x) = Inr x)
   \<and> (\<forall>x. gzip_decompress mini_lib (gzip_compress mini_enc x) = Inr x)
   \<and> (\<forall>x. startswith gzip_magic (gzip_compress mini_enc x))
   \<and> json_loads mini_lib (json_dumps mini_enc (release_record 3 ''m'')) = Inr (release_record 3 ''m'')
   \<and> \<not> startswith gzip_magic (json_dumps mini_enc (release_record 3 ''m''))
   \<and> (\<exists>items. decode_release_payload mini_lib
                  (wrap mini_enc True (json_dumps mini_enc (release_record 3 ''m'')))
                = Inr (PDict items)
              \<and> dict_get items ''version'' (PStr ''?'') = PInt 3
              \<and> dict_get items ''manifest'' PNone = PStr ''m'')
   \<and> (\<exists>items. decode_release_payload mini_lib
                  (wrap mini_enc False (json_dumps mini_enc (release_record 3 ''m'')))
                = Inr (PDict items)
              \<and> dict_get items ''version'' (PStr ''?'') = PInt 3
              \<and> dict_get items ''manifest'' PNone = PStr ''m'')"
proof -
  have d: "json_dumps mini_enc (release_record 3 ''m'') = mini_text" by (simp add: mini_enc_def)
  have h3: "json_loads mini_lib (json_dumps mini_enc (release_record 3 ''m'')) = Inr (release_record 3 ''m'')"
    by (simp only: d mini_loads)
  have h4: "\<not> startswith gzip_magic (json_dumps mini_enc (release_record 3 ''m''))"
    by (simp only: d mini_text_plain not_False_eq_True)
  show ?thesis
    by (intro conjI allI mini_b64 mini_gzip mini_magic h3 h4
        decode_roundtrip [OF mini_b64 mini_gzip mini_magic h3 h4])
qed

section \<open>Extractor\<close>

lemma objects_loop_declared:
  "\<forall>doc\<in>set docs. metadata_ok doc \<Longrightarrow>
   objects_loop docs err default_ns = Gen (map (identity_of default_ns) (filter declares docs)) err"
proof (induction docs)
  case Nil
  show ?case by simp
next
  case (Cons doc docs)
  then have ih: "objects_loop docs err default_ns =
                   Gen (map (identity_of default_ns) (filter declares docs)) err"
    by simp
  from Cons.prems have ok: "metadata_ok doc" by simp
  show ?case
  proof (cases doc)
    case (PDict items)
    with ok obtain meta_items where m: "dict_get items ''metadata'' (PDict []) = PDict meta_items"
      by (auto split: pyval.splits)
    show ?thesis using PDict m ih by (simp add: metadata_field_def Let_def)
  qed (simp_all add: ih)
qed



lemma sample_docs_ok:
  "metadata_ok (resource_doc kind name)" "metadata_ok (PStr s)" "metadata_ok no_kind_doc"
  by (simp_all add: resource_doc_def no_kind_doc_def dict_get_def)

lemma sample_docs_declare:
  "declares (resource_doc kind name) = (kind \<noteq> [] \<and> name \<noteq> [])"
  "\<not> declares (PStr s)" "\<not> declares no_kind_doc"
  by (simp_all add: resource_doc_def no_kind_doc_def dict_get_def metadata_field_def)

lemma sample_identity:
  "identity_of ns (resource_doc kind name) = (PStr ''v1'', PStr kind, PStr ns, PStr name)"
  by (simp add: resource_doc_def dict_get_def metadata_field_def)

lemma load_mixed:
  "safe_load_all sample_lib mixed_yaml =
     Gen [resource_doc ''Service'' ''web'', PStr ''just text'', resource_doc ''ConfigMap'' ''cm1''] None"
  by (simp add: sample_lib_def sample_yaml_def mixed_yaml_def web_yaml_def cm1_yaml_def
      no_kind_yaml_def empty_kind_yaml_def scalar_metadata_yaml_def three_yaml_def nl_def)

lemma load_cm1:
  "safe_load_all sample_lib cm1_yaml = Gen [resource_doc ''ConfigMap'' ''cm1''] None"
  by (simp add: sample_lib_def sample_yaml_def cm1_yaml_def)

lemma load_no_kind: "safe_load_all sample_lib no_kind_yaml = Gen [no_kind_doc] None"
  by (simp add: sample_lib_def sample_yaml_def cm1_yaml_def no_kind_yaml_def)

lemma load_empty_kind:
  "safe_load_all sample_lib empty_kind_yaml = Gen [resource_doc [] ''cm1''] None"
  by (simp add: sample_lib_def sample_yaml_def cm1_yaml_def no_kind_yaml_def empty_kind_yaml_def)

lemma load_scalar_metadata:
  "safe_load_all sample_lib scalar_metadata_yaml = Gen [scalar_metadata_doc] None"
  by (simp add: sample_lib_def sample_yaml_def cm1_yaml_def no_kind_yaml_def empty_kind_yaml_def
      scalar_metadata_yaml_def)

lemma load_three:
  "safe_load_all sample_lib three_yaml =
     Gen [resource_doc ''Service'' ''web'', resource_doc ''ConfigMap'' ''cm1'',
          resource_doc ''Secret'' ''db''] None"
  by (simp add: sample_lib_def sample_yaml_def mixed_yaml_def web_yaml_def cm1_yaml_def
      no_kind_yaml_def empty_kind_yaml_def scalar_metadata_yaml_def three_yaml_def nl_def db_yaml_def)

lemma load_empty: "safe_load_all sample_lib [] = Gen [] None"
  by (simp add: sample_lib_def sample_yaml_def)




text \<open>
  A document whose \<open>metadata\<close> is a scalar ends the extractor too, with the
  AttributeError of \<open>meta.get\<close>.
\<close>

lemma manifest_objects_scalar_metadata:
  "manifest_objects sample_lib scalar_metadata_yaml ''default'' = Gen [] (Some AttributeError)"
  by (simp add: manifest_objects_def load_scalar_metadata scalar_metadata_doc_def dict_get_def)

text \<open>
  C8. When the loader raises nothing and the \<open>metadata\<close> of every document is absent or
  a mapping, the extractor yields one identity for each document that is a mapping with
  a non-empty \<open>apiVersion\<close>, \<open>kind\<close> and \<open>metadata.name\<close>, in the order of the documents,
  and nothing for the others; the namespace is \<open>metadata.namespace\<close>, or the default
  when that is absent or empty.
\<close>

theorem manifest_objects_identities:
  assumes "safe_load_all L manifest_yaml = Gen docs None"
      and "\<forall>doc\<in>set docs. metadata_ok doc"
  shows "manifest_objects L manifest_yaml default_ns
           = Gen (map (identity_of default_ns) (filter declares docs)) None"
  using assms by (simp add: manifest_objects_def objects_loop_declared)

theorem manifest_objects_identities_witness:
  "manifest_objects sample_lib cm1_yaml ''default''
     = Gen [(PStr ''v1'', PStr ''ConfigMap'', PStr ''default'', PStr ''cm1'')] None
   \<and> manifest_objects sample_lib no_kind_yaml ''default'' = Gen [] None
   \<and> manifest_objects sample_lib mixed_yaml ''default''
     = Gen [(PStr ''v1'', PStr ''Service'', PStr ''default'', PStr ''web''),
            (PStr ''v1'', PStr ''ConfigMap'', PStr ''default'', PStr ''cm1'')] None"
proof -
  have a: "\<forall>doc\<in>set [resource_doc ''ConfigMap'' ''cm1'']. metadata_ok doc"
    by (simp add: sample_docs_ok)
  have b: "\<forall>doc\<in>set [no_kind_doc]. metadata_ok doc"
    by (simp add: sample_docs_ok)
  have c: "\<forall>doc\<in>set [resource_doc ''Service'' ''web'', PStr ''just text'',
                  resource_doc ''ConfigMap'' ''cm1'']. metadata_ok doc"
    by (simp add: sample_docs_ok)
  show ?thesis
    using manifest_objects_identities [OF load_cm1 a, of "''default''"]
      manifest_objects_identities [OF load_no_kind b, of "''default''"]
      manifest_objects_identities [OF load_mixed c, of "''default''"]
    by (simp add: sample_docs_declare sample_identity)
qed

text \<open>
  The claim as the specification has it fails on a document that has the three keys,
  one of them empty: \<open>kind: ""\<close>. It yields no identity.
\<close>

theorem manifest_objects_identities_counterexample:
  "safe_load_all sample_lib empty_kind_yaml = Gen [resource_doc [] ''cm1''] None
   \<and> has_keys (resource_doc [] ''cm1'')
   \<and> manifest_objects sample_lib empty_kind_yaml ''default'' = Gen [] None"
  by (simp add: manifest_objects_def load_empty_kind resource_doc_def dict_get_def)

section \<open>Report\<close>

lemma report_loop_total:
  "\<forall>(api_ver, kind, ns, name)\<in>set ss. formattable kind \<Longrightarrow>
   report_loop (\<lambda>i. Inr (oracle i)) ss exists_any out
     = (exists_any \<or> (\<exists>i\<in>set ss. oracle i), out @ map (\<lambda>i. line_of (oracle i) i) ss, None)"
proof (induction ss arbitrary: exists_any out)
  case Nil
  show ?case by simp
next
  case (Cons i ss)
  obtain api_ver kind ns name where i: "i = (api_ver, kind, ns, name)" by (cases i) auto
  from Cons.prems i have f: "formattable kind"
    and rest: "\<forall>(api_ver, kind, ns, name)\<in>set ss. formattable kind" by auto
  show ?case unfolding i using f Cons.IH [OF rest] by (auto simp: Let_def)
qed

text \<open>Identities made of strings are sorted without an exception, into a rearrangement.\<close>

lemma sorted_ids_strings:
  "list_all all_str ids \<Longrightarrow>
   sorted_ids L ids = Inr (sort_key str_key ids) \<and> mset (sort_key str_key ids) = mset ids"
  by (simp add: sorted_ids_def)

text \<open>
  For identities made of strings, the report depends on nothing but the extractor ending
  without an exception.
\<close>

lemma all_str_formattable: "all_str (api_ver, kind, ns, name) \<Longrightarrow> formattable kind"
  by (cases api_ver; cases kind; cases ns; cases name) simp_all

lemma main_report_strings:
  assumes "manifest_objects L manifest namespace = Gen ids None"
      and "list_all all_str ids"
  shows "main_report L (\<lambda>i. Inr (oracle i)) manifest namespace
           = (map (\<lambda>i. line_of (oracle i) i) (sort_key str_key ids)
                @ (if \<forall>i\<in>set ids. \<not> oracle i then [Warning] else []), None)"
proof -
  let ?ss = "sort_key str_key ids"
  have "\<forall>(api_ver, kind, ns, name)\<in>set ids. formattable kind"
    using assms(2) by (auto simp: list_all_iff dest: all_str_formattable)
  then have "\<forall>(api_ver, kind, ns, name)\<in>set ?ss. formattable kind" by simp
  then have "report_loop (\<lambda>i. Inr (oracle i)) ?ss False []
               = (\<exists>i\<in>set ?ss. oracle i, map (\<lambda>i. line_of (oracle i) i) ?ss, None)"
    by (simp add: report_loop_total)
  then show ?thesis
    using assms(1) sorted_ids_strings [OF assms(2), of L] by (simp add: main_report_def)
qed

text \<open>
  C9. When the identities are extracted, sorted and printable, the report has one line
  for each identity, in the sorted order, green and "exists" where the oracle says so,
  red and "absent" where it does not, and the warning comes last exactly when the
  oracle says of every identity that it is absent.
\<close>

theorem main_report_marks:
  assumes "manifest_objects L manifest namespace = Gen ids None"
      and "sorted_ids L ids = Inr ss"
      and "mset ss = mset ids"
      and "\<forall>(api_ver, kind, ns, name)\<in>set ids. formattable kind"
  shows "main_report L (\<lambda>i. Inr (oracle i)) manifest namespace
           = (map (\<lambda>i. line_of (oracle i) i) ss
                @ (if \<forall>i\<in>set ids. \<not> oracle i then [Warning] else []), None)"
proof -
  from assms(3) have s: "set ss = set ids" by (rule mset_eq_setD)
  with assms(4) have "\<forall>(api_ver, kind, ns, name)\<in>set ss. formattable kind" by simp
  then have "report_loop (\<lambda>i. Inr (oracle i)) ss False []
               = (\<exists>i\<in>set ss. oracle i, map (\<lambda>i. line_of (oracle i) i) ss, None)"
    by (simp add: report_loop_total)
  then show ?thesis using assms(1,2) s by (simp add: main_report_def)
qed

lemma three_identities:
  "manifest_objects sample_lib three_yaml ''default''
     = Gen [(PStr ''v1'', PStr ''Service'', PStr ''default'', PStr ''web''),
            (PStr ''v1'', PStr ''ConfigMap'', PStr ''default'', PStr ''cm1''),
            (PStr ''v1'', PStr ''Secret'', PStr ''default'', PStr ''db'')] None"
proof -
  have "objects_loop [resource_doc ''Service'' ''web'', resource_doc ''ConfigMap'' ''cm1'',
          resource_doc ''Secret'' ''db''] None ''default''
        = Gen (map (identity_of ''default'') (filter declares
            [resource_doc ''Service'' ''web'', resource_doc ''ConfigMap'' ''cm1'',
             resource_doc ''Secret'' ''db''])) None"
    by (rule objects_loop_declared) (simp add: sample_docs_ok)
  then show ?thesis
    by (simp del: objects_loop.simps add: manifest_objects_def load_three sample_docs_declare
        sample_identity)
qed

lemma three_sorted:
  "sorted_ids sample_lib
     [(PStr ''v1'', PStr ''Service'', PStr ''default'', PStr ''web''),
      (PStr ''v1'', PStr ''ConfigMap'', PStr ''default'', PStr ''cm1''),
      (PStr ''v1'', PStr ''Secret'', PStr ''default'', PStr ''db'')]
   = Inr [(PStr ''v1'', PStr ''ConfigMap'', PStr ''default'', PStr ''cm1''),
          (PStr ''v1'', PStr ''Secret'', PStr ''default'', PStr ''db''),
          (PStr ''v1'', PStr ''Service'', PStr ''default'', PStr ''web'')]"
  by code_simp

theorem main_report_marks_witness:
  "main_report sample_lib (\<lambda>i. Inr (sample_oracle i)) three_yaml ''default''
     = ([Line (PStr ''ConfigMap'') (PStr ''cm1'') GREEN EXISTS_TXT,
         Line (PStr ''Secret'') (PStr ''db'') RED ABSENT_TXT,
         Line (PStr ''Service'') (PStr ''web'') RED ABSENT_TXT], None)
   \<and> main_report sample_lib (\<lambda>i. Inr ((\<lambda>i. False) i)) three_yaml ''default''
     = ([Line (PStr ''ConfigMap'') (PStr ''cm1'') RED ABSENT_TXT,
         Line (PStr ''Secret'') (PStr ''db'') RED ABSENT_TXT,
         Line (PStr ''Service'') (PStr ''web'') RED ABSENT_TXT,
         Warning], None)"
proof -
  let ?ids = "[(PStr ''v1'', PStr ''Service'', PStr ''default'', PStr ''web''),
            (PStr ''v1'', PStr ''ConfigMap'', PStr ''default'', PStr ''cm1''),
            (PStr ''v1'', PStr ''Secret'', PStr ''default'', PStr ''db'')]"
  let ?ss = "[(PStr ''v1'', PStr ''ConfigMap'', PStr ''default'', PStr ''cm1''),
          (PStr ''v1'', PStr ''Secret'', PStr ''default'', PStr ''db''),
          (PStr ''v1'', PStr ''Service'', PStr ''default'', PStr ''web'')]"
  have h3: "mset ?ss = mset ?ids" by (simp add: add.commute add.left_commute)
  have h4: "\<forall>(api_ver, kind, ns, name)\<in>set ?ids. formattable kind" by simp
  show ?thesis
    using main_report_marks [OF three_identities three_sorted h3 h4, of sample_oracle]
      main_report_marks [OF three_identities three_sorted h3 h4, of "\<lambda>i. False"]
    by (simp add: sample_oracle_def)
qed

text \<open>
  C10. When the manifest yields no identity, the report is the warning alone, whatever
  the live check.
\<close>

theorem main_report_nothing_declared:
  assumes "manifest_objects L manifest namespace = Gen [] None"
  shows "main_report L check manifest namespace = ([Warning], None)"
  using assms by (simp add: main_report_def sorted_ids_def)

theorem main_report_nothing_declared_witness:
  "manifest_objects sample_lib [] ''default'' = Gen [] None
   \<and> main_report sample_lib (\<lambda>i. Inr True) [] ''default'' = ([Warning], None)
   \<and> manifest_objects sample_lib no_kind_yaml ''default'' = Gen [] None
   \<and> main_report sample_lib (\<lambda>i. Inr True) no_kind_yaml ''default'' = ([Warning], None)"
proof -
  have e: "manifest_objects sample_lib [] ''default'' = Gen [] None"
    by (simp add: manifest_objects_def load_empty)
  have n: "manifest_objects sample_lib no_kind_yaml ''default'' = Gen [] None"
    by (simp add: manifest_objects_def load_no_kind no_kind_doc_def dict_get_def)
  show ?thesis
    using main_report_nothing_declared [OF e, of "\<lambda>i. Inr True"]
      main_report_nothing_declared [OF n, of "\<lambda>i. Inr True"] e n
    by simp
qed

end
